theory Spec2Isabelle
  imports Complex_Main
begin

section \<open>JavaScript numbers and values\<close>

text \<open>
  A JavaScript number is \<open>NaN\<close>, one of the two infinities, or a finite value. Finite
  values are modelled as exact reals: rounding to binary64, overflow and the sign of zero
  are outside the model (a zero divisor is taken as \<open>+0\<close>).
\<close>

datatype jsnum = NaN | NegInf | Fin real | PosInf

definition isNaN :: "jsnum \<Rightarrow> bool" where
  "isNaN x = (x = NaN)"

text \<open>The infinity (or \<open>NaN\<close>) with the sign of a real, and the sign of a number.\<close>

definition inf_of_sign :: "real \<Rightarrow> jsnum" where
  "inf_of_sign s = (if 0 < s then PosInf else if s < 0 then NegInf else NaN)"

fun num_sign :: "jsnum \<Rightarrow> real" where
  "num_sign NaN = 0"
| "num_sign NegInf = - 1"
| "num_sign (Fin a) = sgn a"
| "num_sign PosInf = 1"

instantiation jsnum :: "{plus, uminus, minus, times, inverse, ord}"
begin

fun plus_jsnum :: "jsnum \<Rightarrow> jsnum \<Rightarrow> jsnum" where
  "plus_jsnum (Fin a) (Fin b) = Fin (a + b)"
| "plus_jsnum NaN y = NaN"
| "plus_jsnum x NaN = NaN"
| "plus_jsnum PosInf NegInf = NaN"
| "plus_jsnum NegInf PosInf = NaN"
| "plus_jsnum PosInf y = PosInf"
| "plus_jsnum x PosInf = PosInf"
| "plus_jsnum NegInf y = NegInf"
| "plus_jsnum x NegInf = NegInf"

fun uminus_jsnum :: "jsnum \<Rightarrow> jsnum" where
  "uminus_jsnum NaN = NaN"
| "uminus_jsnum NegInf = PosInf"
| "uminus_jsnum (Fin a) = Fin (- a)"
| "uminus_jsnum PosInf = NegInf"

definition minus_jsnum :: "jsnum \<Rightarrow> jsnum \<Rightarrow> jsnum" where
  "minus_jsnum x y = x + (- y)"

fun times_jsnum :: "jsnum \<Rightarrow> jsnum \<Rightarrow> jsnum" where
  "times_jsnum (Fin a) (Fin b) = Fin (a * b)"
| "times_jsnum NaN y = NaN"
| "times_jsnum x NaN = NaN"
| "times_jsnum x y = inf_of_sign (num_sign x * num_sign y)"

fun divide_jsnum :: "jsnum \<Rightarrow> jsnum \<Rightarrow> jsnum" where
  "divide_jsnum (Fin a) (Fin b) = (if b = 0 then inf_of_sign a else Fin (a / b))"
| "divide_jsnum NaN y = NaN"
| "divide_jsnum x NaN = NaN"
| "divide_jsnum (Fin a) y = Fin 0"
| "divide_jsnum x (Fin b) = inf_of_sign (if b < 0 then - num_sign x else num_sign x)"
| "divide_jsnum x y = NaN"

definition inverse_jsnum :: "jsnum \<Rightarrow> jsnum" where
  "inverse_jsnum x = Fin 1 div x"

text \<open>Comparisons with \<open>NaN\<close> are false.\<close>

fun less_jsnum :: "jsnum \<Rightarrow> jsnum \<Rightarrow> bool" where
  "less_jsnum (Fin a) (Fin b) = (a < b)"
| "less_jsnum NaN y = False"
| "less_jsnum x NaN = False"
| "less_jsnum x NegInf = False"
| "less_jsnum NegInf y = True"
| "less_jsnum PosInf y = False"
| "less_jsnum x PosInf = True"

definition less_eq_jsnum :: "jsnum \<Rightarrow> jsnum \<Rightarrow> bool" where
  "less_eq_jsnum x y = (x < y \<or> (x = y \<and> x \<noteq> NaN))"

instance ..

end

text \<open>\<open>Math.min\<close>, \<open>Math.max\<close>: \<open>NaN\<close> if an argument is \<open>NaN\<close>.\<close>

definition Math_min :: "jsnum \<Rightarrow> jsnum \<Rightarrow> jsnum" where
  "Math_min x y = (if x = NaN \<or> y = NaN then NaN else if y < x then y else x)"

definition Math_max :: "jsnum \<Rightarrow> jsnum \<Rightarrow> jsnum" where
  "Math_max x y = (if x = NaN \<or> y = NaN then NaN else if x < y then y else x)"

text \<open>\<open>Math.round\<close>: the nearest integer, a tie going up.\<close>

fun Math_round :: "jsnum \<Rightarrow> jsnum" where
  "Math_round (Fin a) = Fin (of_int \<lfloor>a + 1 / 2\<rfloor>)"
| "Math_round x = x"

text \<open>
  The value of a property. A signal field is read only through \<open>== null\<close> and
  \<open>Number(.)\<close>, so it holds \<open>undefined\<close> (also: the property is absent),
  \<open>null\<close>, or a number; a value of another type stands as the number \<open>Number(.)\<close>
  makes of it (\<open>NaN\<close> for a string such as \<open>"abc"\<close> or for a plain object). A
  weight is a number or nullish, as the data model has it: the loop adds weights with
  \<open>+=\<close>, which would concatenate a string.
\<close>

datatype jsval = Undefined | Null | Num jsnum

text \<open>\<open>v == null\<close>\<close>

fun nullish :: "jsval \<Rightarrow> bool" where
  "nullish Undefined = True"
| "nullish Null = True"
| "nullish (Num n) = False"

text \<open>\<open>Number(v)\<close>\<close>

fun Number :: "jsval \<Rightarrow> jsnum" where
  "Number Undefined = NaN"
| "Number Null = Fin 0"
| "Number (Num n) = n"

text \<open>\<open>a || b\<close> on numbers: \<open>b\<close> when \<open>a\<close> is \<open>0\<close> or \<open>NaN\<close>.\<close>

definition num_or :: "jsnum \<Rightarrow> jsnum \<Rightarrow> jsnum" where
  "num_or a b = (if a = Fin 0 \<or> a = NaN then b else a)"

text \<open>\<open>v ?? d\<close> with a numeric default.\<close>

definition num_coalesce :: "jsval \<Rightarrow> jsnum \<Rightarrow> jsnum" where
  "num_coalesce v d = (if nullish v then d else Number v)"

text \<open>\<open>obj[key]\<close>: \<open>undefined\<close> for a key the object does not have.\<close>

definition get_prop :: "(string \<rightharpoonup> jsval) \<Rightarrow> string \<Rightarrow> jsval" where
  "get_prop obj key = (case obj key of None \<Rightarrow> Undefined | Some v \<Rightarrow> v)"

section \<open>The scorer: \<open>src/scoring/transferProbability.js\<close>\<close>

definition DEFAULT_WEIGHTS :: "string \<rightharpoonup> jsval" where
  "DEFAULT_WEIGHTS =
     [''playingTime'' \<mapsto> Num (Fin 0.22),
      ''distanceFromHome'' \<mapsto> Num (Fin 0.15),
      ''recruitingRank'' \<mapsto> Num (Fin 0.18),
      ''teamPerformance'' \<mapsto> Num (Fin 0.15),
      ''nilCollectives'' \<mapsto> Num (Fin 0.10),
      ''snapsPlayed'' \<mapsto> Num (Fin 0.12),
      ''socialSentiment'' \<mapsto> Num (Fin 0.08)]"

definition normalize :: "jsval \<Rightarrow> jsnum \<Rightarrow> jsnum \<Rightarrow> jsnum" where
  "normalize val mn mx =
     (if nullish val \<or> isNaN (Number val) then Fin 0.5
      else let v = Math_max mn (Math_min mx (Number val))
           in (v - mn) / num_or (mx - mn) (Fin 1))"

definition riskFromPlayingTime :: "jsval \<Rightarrow> jsnum" where
  "riskFromPlayingTime usg =
     (if nullish usg then Fin 0.5
      else let u = Math_max (Fin 0) (Math_min (Fin 1) (Number usg))
           in Fin 1 - u)"

definition riskFromDistance :: "jsval \<Rightarrow> jsnum" where
  "riskFromDistance miles =
     (if nullish miles then Fin 0.5
      else let m = Math_max (Fin 0) (Number miles)
           in normalize (Num m) (Fin 0) (Fin 1500))"

definition riskFromRecruiting :: "jsval \<Rightarrow> jsval \<Rightarrow> jsnum" where
  "riskFromRecruiting recruitingRankNormalized playingTimeNormalized =
     (if nullish recruitingRankNormalized then Fin 0.5
      else let rank = Math_max (Fin 0) (Math_min (Fin 1) (Number recruitingRankNormalized));
               usg = (if \<not> nullish playingTimeNormalized
                      then Math_max (Fin 0) (Math_min (Fin 1) (Number playingTimeNormalized))
                      else Fin 0.5)
           in rank * (Fin 1 - usg))"

definition riskFromTeamPerformance :: "jsval \<Rightarrow> jsnum" where
  "riskFromTeamPerformance winRate =
     (if nullish winRate then Fin 0.5
      else let w = Math_max (Fin 0) (Math_min (Fin 1) (Number winRate))
           in Fin 1 - w)"

definition riskFromNIL :: "jsval \<Rightarrow> jsnum" where
  "riskFromNIL nil =
     (if nullish nil then Fin 0.5
      else let n = Math_max (Fin 0) (Math_min (Fin 1) (Number nil))
           in Fin 1 - n)"

text \<open>The parameter \<open>maxSnaps\<close> has the default 800; the scorer never passes it.\<close>

definition riskFromSnaps :: "jsval \<Rightarrow> jsnum \<Rightarrow> jsnum" where
  "riskFromSnaps snaps maxSnaps =
     (if nullish snaps then Fin 0.5
      else let s = Math_max (Fin 0) (Number snaps)
           in Fin 1 - normalize (Num s) (Fin 0) maxSnaps)"

definition riskFromSocial :: "jsval \<Rightarrow> jsnum" where
  "riskFromSocial sentiment =
     (if nullish sentiment then Fin 0.5
      else Math_max (Fin 0) (Math_min (Fin 1) (Number sentiment)))"

text \<open>
  The signal record the scorer reads. A property the object does not have is
  \<open>Undefined\<close>. The \<open>weights\<close> property is an object from keys to weights, spread
  into the effective weights; when it is absent (or not an object with factor keys) it
  spreads no factor key, which is the empty map. The scorer takes any object with these
  properties, whatever else it carries: a record scheme.
\<close>

record signal =
  playingTime :: jsval
  distanceFromHighSchoolMiles :: jsval
  recruitingRank :: jsval
  teamWinRate :: jsval
  nilScore :: jsval
  snapsPlayed :: jsval
  socialSentiment :: jsval
  weights :: "string \<rightharpoonup> jsval"

text \<open>The argument default \<open>input = {}\<close>.\<close>

definition empty_input :: signal where
  "empty_input =
     \<lparr>playingTime = Undefined, distanceFromHighSchoolMiles = Undefined,
      recruitingRank = Undefined, teamWinRate = Undefined, nilScore = Undefined,
      snapsPlayed = Undefined, socialSentiment = Undefined, weights = Map.empty\<rparr>"

record breakdown_entry =
  risk :: jsnum
  weight :: jsnum
  contribution :: jsnum

text \<open>The returned object; \<open>breakdown\<close> and \<open>factors\<close> keep their keys in insertion order.\<close>

record score =
  probability :: jsnum
  breakdown :: "(string \<times> breakdown_entry) list"
  factors :: "(string \<times> jsnum) list"

text \<open>\<open>const w = { ...DEFAULT_WEIGHTS, ...input.weights, ...weights }\<close>\<close>

definition resolve_weights :: "'a signal_scheme \<Rightarrow> (string \<rightharpoonup> jsval) \<Rightarrow> (string \<rightharpoonup> jsval)" where
  "resolve_weights input wts = DEFAULT_WEIGHTS ++ weights input ++ wts"

text \<open>The seven risks and the object \<open>factors\<close> built from them.\<close>

definition compute_factors :: "'a signal_scheme \<Rightarrow> (string \<times> jsnum) list" where
  "compute_factors input =
     (let pt = (if \<not> nullish (playingTime input) then Num (Number (playingTime input)) else Null);
          recruitingNorm =
            (if \<not> nullish (recruitingRank input)
             then Num (if Number (recruitingRank input) \<le> Fin 1
                       then Number (recruitingRank input)
                       else Number (recruitingRank input) / Fin 100)
             else Null);
          rPlaying = riskFromPlayingTime pt;
          rDistance = riskFromDistance (distanceFromHighSchoolMiles input);
          rRecruiting = riskFromRecruiting recruitingNorm pt;
          rTeam = riskFromTeamPerformance (teamWinRate input);
          rNIL = riskFromNIL (nilScore input);
          rSnaps = riskFromSnaps (snapsPlayed input) (Fin 800);
          rSocial = riskFromSocial (socialSentiment input)
      in [(''playingTime'', rPlaying),
          (''distanceFromHome'', rDistance),
          (''recruitingRank'', rRecruiting),
          (''teamPerformance'', rTeam),
          (''nilCollectives'', rNIL),
          (''snapsPlayed'', rSnaps),
          (''socialSentiment'', rSocial)])"

text \<open>
  The first loop over \<open>Object.entries(factors)\<close>; the state is
  \<open>(totalWeight, weightedSum)\<close>.
\<close>

fun accumulate ::
  "(string \<rightharpoonup> jsval) \<Rightarrow> (string \<times> jsnum) list \<Rightarrow> jsnum \<times> jsnum \<Rightarrow> jsnum \<times> jsnum" where
  "accumulate w [] acc = acc"
| "accumulate w ((key, r) # rest) (totalWeight, weightedSum) =
     (let wt = get_prop w key
      in if \<not> nullish wt \<and> Fin 0 < Number wt
         then accumulate w rest (totalWeight + Number wt, weightedSum + Number wt * r)
         else accumulate w rest (totalWeight, weightedSum))"

text \<open>The second loop, filling \<open>breakdown\<close>.\<close>

definition make_breakdown ::
  "(string \<rightharpoonup> jsval) \<Rightarrow> (string \<times> jsnum) list \<Rightarrow> (string \<times> breakdown_entry) list" where
  "make_breakdown w fs =
     map (\<lambda>(key, r).
            (key, \<lparr>risk = Math_round (r * Fin 100) / Fin 100,
                   weight = num_coalesce (get_prop w key) (Fin 0),
                   contribution =
                     Math_round (num_coalesce (get_prop w key) (Fin 0) * r * Fin 100) / Fin 100\<rparr>))
         fs"

definition computeTransferProbability :: "'a signal_scheme \<Rightarrow> (string \<rightharpoonup> jsval) \<Rightarrow> score" where
  "computeTransferProbability input wts =
     (let w = resolve_weights input wts;
          fs = compute_factors input;
          (totalWeight, weightedSum) = accumulate w fs (Fin 0, Fin 0);
          prob = (if Fin 0 < totalWeight then (weightedSum / totalWeight) * Fin 100 else Fin 50)
      in \<lparr>probability = Math_round (prob * Fin 10) / Fin 10,
          breakdown = make_breakdown w fs,
          factors = fs\<rparr>)"

section \<open>Strings\<close>

text \<open>
  Strings are lists of 8-bit characters; white space and letter case are those of ASCII.
  A string property is \<open>None\<close> when it is absent, \<open>undefined\<close> or \<open>null\<close>.
\<close>

definition is_space :: "char \<Rightarrow> bool" where
  "is_space c = (c \<in> set [CHR 0x09, CHR 0x0A, CHR 0x0B, CHR 0x0C, CHR 0x0D, CHR 0x20])"

text \<open>\<open>s.trim()\<close>\<close>

definition js_trim :: "string \<Rightarrow> string" where
  "js_trim s = rev (dropWhile is_space (rev (dropWhile is_space s)))"

text \<open>\<open>s.toLowerCase()\<close>, \<open>s.toUpperCase()\<close>\<close>

definition toLowerCase :: "string \<Rightarrow> string" where
  "toLowerCase s =
     map (\<lambda>c. case map_of (zip ''ABCDEFGHIJKLMNOPQRSTUVWXYZ'' ''abcdefghijklmnopqrstuvwxyz'') c of
                 None \<Rightarrow> c | Some d \<Rightarrow> d) s"

definition toUpperCase :: "string \<Rightarrow> string" where
  "toUpperCase s =
     map (\<lambda>c. case map_of (zip ''abcdefghijklmnopqrstuvwxyz'' ''ABCDEFGHIJKLMNOPQRSTUVWXYZ'') c of
                 None \<Rightarrow> c | Some d \<Rightarrow> d) s"

text \<open>\<open>s.includes(t)\<close>\<close>

fun str_includes :: "string \<Rightarrow> string \<Rightarrow> bool" where
  "str_includes [] t = (t = [])"
| "str_includes (c # cs) t = (take (length t) (c # cs) = t \<or> str_includes cs t)"

text \<open>Truthiness of a string property, and \<open>a || b\<close> on string properties.\<close>

fun truthy_str :: "string option \<Rightarrow> bool" where
  "truthy_str None = False"
| "truthy_str (Some s) = (s \<noteq> [])"

definition str_or :: "string option \<Rightarrow> string option \<Rightarrow> string option" where
  "str_or a b = (if truthy_str a then a else b)"

text \<open>\<open>a || s\<close> where \<open>s\<close> is a string.\<close>

fun or_str :: "string option \<Rightarrow> string \<Rightarrow> string" where
  "or_str None s = s"
| "or_str (Some a) s = (if a \<noteq> [] then a else s)"

text \<open>\<open>!x || !String(x).trim()\<close>\<close>

fun blank :: "string option \<Rightarrow> bool" where
  "blank None = True"
| "blank (Some s) = (s = [] \<or> js_trim s = [])"

text \<open>Truthiness of a number or nullish value, and \<open>a ?? b\<close>.\<close>

fun truthy :: "jsval \<Rightarrow> bool" where
  "truthy (Num n) = (n \<noteq> Fin 0 \<and> n \<noteq> NaN)"
| "truthy v = False"

definition coalesce :: "jsval \<Rightarrow> jsval \<Rightarrow> jsval" where
  "coalesce a b = (if nullish a then b else a)"

section \<open>The aggregator: \<open>src/data/aggregate.js\<close>\<close>

text \<open>
  The two errors \<open>aggregatePlayerInput\<close> throws itself are \<open>InputError\<close>
  (\<open>Provide either a player name or a team (or both).\<close>) and \<open>ResolutionError\<close>
  (\<open>No player found for "name". Try a different name or year.\<close>); a rejected
  request of the client is \<open>ApiError\<close> with its message, and \<open>TypeError\<close> is the
  call of a method that a value does not have.
\<close>

datatype error = InputError | ResolutionError string | ApiError string | TypeError

text \<open>
  The records of the statistics service, with the properties the aggregator probes: text
  properties are strings and numeric properties are numbers, when present. A fulfilled
  request carries an array of such records (\<open>Items\<close>) or, as the aggregator tests
  with \<open>Array.isArray\<close>, a value that is not an array (\<open>NotArray\<close>, with its
  truthiness).
\<close>

datatype 'a payload = Items "'a list" | NotArray bool

text \<open>The records of a payload, none when it is not an array.\<close>

fun items_of :: "'a payload \<Rightarrow> 'a list" where
  "items_of (Items xs) = xs"
| "items_of (NotArray b) = []"

record player_hit =
  hit_name :: "string option"
  hit_player :: "string option"
  hit_team :: "string option"
  hit_school :: "string option"

datatype snap_field = Scalar jsval | Array "jsval list"

record usage_rec =
  usg_player :: "string option"
  usg_name :: "string option"
  usg_usg_overall :: jsval
  usg_usage_overall :: jsval
  usg_usage :: jsval
  usg_usageOverall :: jsval
  usg_snap_counts :: snap_field
  usg_snaps :: jsval
  usg_snap_count :: jsval
  usg_totalSnaps :: jsval

record roster_rec =
  rst_name :: "string option"
  rst_player :: "string option"
  rst_hometown :: "string option"
  rst_home_town :: "string option"
  rst_city :: "string option"

record recruit_rec =
  rcr_name :: "string option"
  rcr_player :: "string option"
  rcr_rating :: jsval
  rcr_rank :: jsval
  rcr_overall :: jsval
  rcr_stars :: jsval

text \<open>
  A season record and its \<open>total\<close> object are read through the same six keys.
\<close>

record tally =
  rec_total_wins :: jsval
  rec_wins :: jsval
  rec_total_losses :: jsval
  rec_losses :: jsval
  rec_total_games :: jsval
  rec_games :: jsval

record team_record = tally +
  rec_season :: jsval
  rec_year :: jsval
  rec_team :: "string option"
  rec_total :: "tally option"

record game =
  game_home_team :: "string option"
  game_home_points :: jsval
  game_away_points :: jsval

text \<open>The client, as the functions the aggregator calls; \<open>Inl\<close> is a rejected request.\<close>

record api =
  searchPlayers :: "jsval \<Rightarrow> string \<Rightarrow> string + player_hit payload"
  getPlayerUsage :: "jsval \<Rightarrow> string \<Rightarrow> string + usage_rec payload"
  getRoster :: "string \<Rightarrow> jsval \<Rightarrow> string + roster_rec payload"
  getRecruitingPlayers :: "jsval \<Rightarrow> string \<Rightarrow> string + recruit_rec payload"
  getTeamRecords :: "jsval \<Rightarrow> string \<Rightarrow> string + team_record payload"
  getTeamGames :: "jsval \<Rightarrow> string \<Rightarrow> string \<Rightarrow> string + game payload"

definition STATE_DISTANCE_APPROXIMATE_MILES :: jsnum where
  "STATE_DISTANCE_APPROXIMATE_MILES = Fin 800"

record resolved =
  res_team :: string
  res_name :: string

definition resolvePlayerByName :: "api \<Rightarrow> jsval \<Rightarrow> string option \<Rightarrow> string + resolved option" where
  "resolvePlayerByName client year playerName =
     (case playerName of
        None \<Rightarrow> Inr None
      | Some pn \<Rightarrow>
          if pn = [] \<or> js_trim pn = [] then Inr None
          else (case searchPlayers client year (js_trim pn) of
                  Inl e \<Rightarrow> Inl e
                | Inr (NotArray b) \<Rightarrow> Inr None
                | Inr (Items list) \<Rightarrow>
                    if list = [] then Inr None
                    else let nameLower = toLowerCase pn;
                             exact = find (\<lambda>p. toLowerCase (or_str (str_or (hit_name p) (hit_player p)) [])
                                                  = nameLower) list;
                             match = (case exact of
                                        Some m \<Rightarrow> Some m
                                      | None \<Rightarrow>
                                          find (\<lambda>p. str_includes
                                                       (toLowerCase (or_str (str_or (hit_name p) (hit_player p)) []))
                                                       nameLower) list)
                         in (case match of
                               None \<Rightarrow> Inr None
                             | Some m \<Rightarrow>
                                 (case str_or (hit_team m) (hit_school m) of
                                    None \<Rightarrow> Inr None
                                  | Some team \<Rightarrow>
                                      if team = [] then Inr None
                                      else Inr (Some \<lparr>res_team = team,
                                                       res_name = or_str (str_or (hit_name m) (hit_player m)) pn\<rparr>)))))"

text \<open>
  \<open>String(r.season ?? r.year ?? '') === String(year)\<close>. The text of a number determines
  the number, and it is never empty, \<open>undefined\<close> or \<open>null\<close>: the two texts are equal
  exactly when the record carries a number and \<open>year\<close> is that number.
\<close>

definition year_matches :: "jsval \<Rightarrow> team_record \<Rightarrow> bool" where
  "year_matches year r =
     (let v = coalesce (rec_season r) (rec_year r)
      in \<not> nullish v \<and> year = Num (Number v))"

fun findTeamRecord :: "team_record payload \<Rightarrow> jsval \<Rightarrow> string \<Rightarrow> team_record option" where
  "findTeamRecord (NotArray b) year team = None"
| "findTeamRecord (Items records) year team =
     (if records = [] then None
      else (case find (\<lambda>r. year_matches year r
                              \<and> (rec_team r = Some team \<or> \<not> truthy_str (rec_team r))) records of
              Some r \<Rightarrow> Some r
            | None \<Rightarrow> find (\<lambda>r. rec_team r = Some team) records))"

text \<open>\<open>obj?.key\<close>\<close>

definition opt_chain :: "'a option \<Rightarrow> ('a \<Rightarrow> jsval) \<Rightarrow> jsval" where
  "opt_chain obj key = (case obj of None \<Rightarrow> Undefined | Some x \<Rightarrow> key x)"

text \<open>\<open>a > b\<close> on numbers and nullish values.\<close>

definition js_gt :: "jsval \<Rightarrow> jsval \<Rightarrow> bool" where
  "js_gt a b = (Number b < Number a)"

text \<open>
  The body of \<open>getWinRate\<close> is one \<open>try\<close> whose \<open>catch\<close> returns 0.5: a rejected
  request, and \<open>games.filter\<close> on a value that is not an array, end there.
\<close>

definition getWinRate :: "api \<Rightarrow> jsval \<Rightarrow> string \<Rightarrow> jsnum" where
  "getWinRate client year team =
     (case getTeamRecords client year team of
        Inl e \<Rightarrow> Fin 0.5
      | Inr records \<Rightarrow>
          let fromSeason =
                (case findTeamRecord records year team of
                   None \<Rightarrow> None
                 | Some season \<Rightarrow>
                     let wins = Number (coalesce (opt_chain (rec_total season) rec_wins)
                                          (coalesce (rec_wins season) (Num (Fin 0))));
                         probe = coalesce (opt_chain (rec_total season) rec_games) (rec_games season);
                         cond = (if nullish probe
                                 then \<not> nullish (opt_chain (rec_total season) rec_losses)
                                 else truthy probe);
                         games = (if cond
                                  then wins + Number (coalesce (opt_chain (rec_total season) rec_losses)
                                                        (coalesce (rec_losses season) (Num (Fin 0))))
                                  else Fin 0)
                     in if Fin 0 < games then Some (wins / games) else None)
          in (case fromSeason of
                Some rate \<Rightarrow> rate
              | None \<Rightarrow>
                  (case getTeamGames client year team ''regular'' of
                     Inl e \<Rightarrow> Fin 0.5
                   | Inr (NotArray b) \<Rightarrow> Fin 0.5
                   | Inr (Items games) \<Rightarrow>
                       let wins = length (filter (\<lambda>g. if game_home_team g = Some team
                                                        then js_gt (game_home_points g) (game_away_points g)
                                                        else js_gt (game_away_points g) (game_home_points g))
                                            games)
                       in if length games > 0
                          then Fin (real wins) / Fin (real (length games))
                          else Fin 0.5)))"

definition normalizeRecruitingRating :: "jsval \<Rightarrow> jsval" where
  "normalizeRecruitingRating rating =
     (if nullish rating then Null
      else let r = Number rating
           in if isNaN r then Null
              else if r \<le> Fin 1 then Num r
              else if r \<le> Fin 5 then Num (r / Fin 5)
              else if r \<le> Fin 100 then Num (r / Fin 100)
              else if r \<le> Fin 255 then Num (r / Fin 255)
              else Num (Math_min (Fin 1) (r / Fin 300)))"

text \<open>
  \<open>pickNum(obj, ...keys)\<close> and \<open>pickStr(obj, ...keys)\<close> for an object that is not
  nullish, given the values \<open>obj[k]\<close> of the keys in their order.
\<close>

fun pickNum :: "jsval list \<Rightarrow> jsval" where
  "pickNum [] = Null"
| "pickNum (v # vs) =
     (if \<not> nullish v \<and> \<not> isNaN (Number v) then Num (Number v) else pickNum vs)"

fun pickStr :: "string option list \<Rightarrow> string option" where
  "pickStr [] = None"
| "pickStr (None # vs) = pickStr vs"
| "pickStr (Some s # vs) = (if js_trim s \<noteq> [] then Some (js_trim s) else pickStr vs)"

text \<open>
  The table \<open>TEAM_STATE\<close>. A key it does not have is looked up on \<open>Object.prototype\<close>,
  whose properties are functions or objects, not strings.
\<close>

definition TEAM_STATE :: "(string \<times> string) list" where
  "TEAM_STATE =
     [(''Ohio State'', ''OH''), (''Michigan'', ''MI''), (''Alabama'', ''AL''), (''Georgia'', ''GA''),
      (''Texas'', ''TX''), (''Oklahoma'', ''OK''), (''Clemson'', ''SC''), (''Florida State'', ''FL''),
      (''Florida'', ''FL''), (''LSU'', ''LA''), (''Penn State'', ''PA''), (''Notre Dame'', ''IN''),
      (''Tennessee'', ''TN''), (''USC'', ''CA''), (''Oregon'', ''OR''), (''Washington'', ''WA''),
      (''Texas A&M'', ''TX''), (''Auburn'', ''AL''), (''Miami'', ''FL''), (''Nebraska'', ''NE''),
      (''Iowa'', ''IA''), (''Wisconsin'', ''WI''), (''Michigan State'', ''MI''), (''Kentucky'', ''KY''),
      (''South Carolina'', ''SC''), (''Arkansas'', ''AR''), (''Ole Miss'', ''MS''), (''Mississippi State'', ''MS''),
      (''Missouri'', ''MO''), (''North Carolina'', ''NC''), (''Virginia Tech'', ''VA''), (''West Virginia'', ''WV''),
      (''California'', ''CA''), (''Stanford'', ''CA''), (''UCLA'', ''CA''), (''Arizona'', ''AZ''),
      (''Arizona State'', ''AZ''), (''Utah'', ''UT''), (''Colorado'', ''CO''), (''Kansas'', ''KS''),
      (''Kansas State'', ''KS''), (''Oklahoma State'', ''OK''), (''Baylor'', ''TX''), (''TCU'', ''TX''),
      (''Texas Tech'', ''TX''), (''Houston'', ''TX''), (''SMU'', ''TX''), (''Tulane'', ''LA''),
      (''Maryland'', ''MD''), (''Rutgers'', ''NJ''), (''Indiana'', ''IN''), (''Purdue'', ''IN''),
      (''Illinois'', ''IL''), (''Northwestern'', ''IL''), (''Minnesota'', ''MN'')]"

definition OBJECT_PROTOTYPE_KEYS :: "string list" where
  "OBJECT_PROTOTYPE_KEYS =
     [''constructor'', ''hasOwnProperty'', ''isPrototypeOf'', ''propertyIsEnumerable'',
      ''toLocaleString'', ''toString'', ''valueOf'', ''__proto__'',
      ''__defineGetter__'', ''__defineSetter__'', ''__lookupGetter__'', ''__lookupSetter__'']"

datatype state_lookup = NoState | State string | NotAString

text \<open>\<open>TEAM_STATE[team] || null\<close>\<close>

definition inferTeamState :: "string \<Rightarrow> state_lookup" where
  "inferTeamState team =
     (case map_of TEAM_STATE team of
        Some st \<Rightarrow> State st
      | None \<Rightarrow> if team \<in> set OBJECT_PROTOTYPE_KEYS then NotAString else NoState)"

text \<open>
  The selection of one record of a source: with a player name, the first record whose
  name matches it (\<open>(list || []).find(...)\<close>, a \<open>TypeError\<close> on a truthy value that
  is not an array), else the first record of the array. \<open>name_of\<close> is the \<open>pickStr\<close>
  of the record's name keys.
\<close>

definition pick_player ::
  "('a \<Rightarrow> string option) \<Rightarrow> string option \<Rightarrow> 'a payload \<Rightarrow> error + 'a option" where
  "pick_player name_of playerName source =
     (let found =
            (case playerName of
               None \<Rightarrow> Inr None
             | Some pn \<Rightarrow>
                 if pn = [] then Inr None
                 else (case source of
                         NotArray b \<Rightarrow> if b then Inl TypeError else Inr None
                       | Items list \<Rightarrow>
                           let nameLower = toLowerCase pn
                           in Inr (find (\<lambda>p. let n = toLowerCase (or_str (name_of p) [])
                                              in n = nameLower \<or> str_includes n nameLower
                                                 \<or> str_includes nameLower n)
                                        list)))
      in (case found of
            Inl e \<Rightarrow> Inl e
          | Inr (Some p) \<Rightarrow> Inr (Some p)
          | Inr None \<Rightarrow> (case items_of source of [] \<Rightarrow> Inr None | p # rest \<Rightarrow> Inr (Some p))))"

text \<open>Truthiness of \<open>snap_counts\<close>, and \<open>Array.isArray(c) ? c : [c]\<close>.\<close>

fun truthy_field :: "snap_field \<Rightarrow> bool" where
  "truthy_field (Scalar v) = truthy v"
| "truthy_field (Array vs) = True"

fun as_array :: "snap_field \<Rightarrow> jsval list" where
  "as_array (Scalar v) = [v]"
| "as_array (Array vs) = vs"

text \<open>The block that sets \<open>playingTime\<close> and \<open>snapsPlayed\<close>; it returns both.\<close>

definition derive_usage :: "usage_rec option \<Rightarrow> jsval \<times> jsval" where
  "derive_usage playerUsage =
     (case playerUsage of
        None \<Rightarrow> (Null, Null)
      | Some u \<Rightarrow>
          let picked = pickNum [usg_usg_overall u, usg_usage_overall u, usg_usage u, usg_usageOverall u];
              scaled = (if \<not> nullish picked \<and> Fin 1 < Number picked
                        then Num (Number picked / Fin 100) else picked);
              total = foldl (\<lambda>a b. a + num_or (Number b) (Fin 0)) (Fin 0) (as_array (usg_snap_counts u));
              fromCounts = (nullish scaled \<and> truthy_field (usg_snap_counts u));
              usageValue = (if fromCounts then Num (Math_min (Fin 1) (total / Fin (70 * 12))) else scaled);
              snaps = (if fromCounts then Num total else Null)
          in (usageValue,
              if nullish snaps
              then pickNum [usg_snaps u, usg_snap_count u, usg_totalSnaps u]
              else snaps))"

text \<open>The block that sets \<open>recruitingRank\<close>.\<close>

definition derive_recruiting :: "recruit_rec option \<Rightarrow> jsval" where
  "derive_recruiting playerRecruiting =
     (case playerRecruiting of
        None \<Rightarrow> Null
      | Some r \<Rightarrow>
          normalizeRecruitingRating
            (coalesce (pickNum [rcr_rating r, rcr_rank r, rcr_overall r])
                      (if \<not> nullish (rcr_stars r) then Num (Number (rcr_stars r) / Fin 5) else Null)))"

text \<open>\<open>hometown.split(',').pop()\<close>: the text after the last comma.\<close>

definition last_segment :: "string \<Rightarrow> string" where
  "last_segment s = rev (takeWhile (\<lambda>c. c \<noteq> CHR '','') (rev s))"

text \<open>The block that sets \<open>distance\<close>, from the override \<open>miles\<close>.\<close>

definition derive_distance :: "jsval \<Rightarrow> roster_rec option \<Rightarrow> string \<Rightarrow> error + jsval" where
  "derive_distance miles playerRoster team =
     (case playerRoster of
        None \<Rightarrow> Inr miles
      | Some pr \<Rightarrow>
          if \<not> nullish miles then Inr miles
          else (case pickStr [rst_hometown pr, rst_home_town pr, rst_city pr] of
                  None \<Rightarrow> Inr miles
                | Some hometown \<Rightarrow>
                    let teamState = inferTeamState team;
                        hometownState = take 2 (js_trim (last_segment hometown))
                    in (case teamState of
                          NoState \<Rightarrow> Inr (Num STATE_DISTANCE_APPROXIMATE_MILES)
                        | NotAString \<Rightarrow>
                            if hometownState \<noteq> [] then Inl TypeError
                            else Inr (Num STATE_DISTANCE_APPROXIMATE_MILES)
                        | State st \<Rightarrow>
                            if hometownState \<noteq> [] \<and> toUpperCase st = toUpperCase hometownState
                            then Inr (Num (Fin 100))
                            else Inr (Num STATE_DISTANCE_APPROXIMATE_MILES))))"

text \<open>
  The win rate from the season records fetched with the other sources. \<open>total\<close> is
  \<open>season.total\<close> when present, else \<open>season\<close>, and \<open>rec\<close> is the same object, so
  \<open>rec.wins ?? total?.wins\<close> reads \<open>total\<close> twice.
\<close>

definition season_win_rate :: "team_record payload \<Rightarrow> jsval \<Rightarrow> string \<Rightarrow> jsnum" where
  "season_win_rate records year team =
     (if items_of records = [] then Fin 0.5
      else (case findTeamRecord records year team of
              None \<Rightarrow> Fin 0.5
            | Some season \<Rightarrow>
                let total = (case rec_total season of Some t \<Rightarrow> t | None \<Rightarrow> tally.truncate season);
                    wins = Number (coalesce (rec_total_wins total)
                                     (coalesce (rec_wins total) (coalesce (rec_wins total) (Num (Fin 0)))));
                    losses = Number (coalesce (rec_total_losses total)
                                       (coalesce (rec_losses total) (coalesce (rec_losses total) (Num (Fin 0)))));
                    games = num_or (num_or (Number (coalesce (rec_total_games total)
                                                      (coalesce (rec_games total)
                                                         (coalesce (rec_games total) (Num (Fin 0))))))
                                           (wins + losses))
                                   (Fin 1)
                in if Fin 0 < games then wins / games else Fin 0.5))"

text \<open>
  The options: the lookup keys and, as the request body may carry them, the properties
  of a signal record. The result: a signal record and \<open>_meta\<close>.
\<close>

record options = signal +
  opt_year :: jsval
  opt_team :: "string option"
  opt_playerName :: "string option"

record meta_info =
  meta_playerName :: "string option"
  meta_team :: string
  meta_year :: jsval

record aggregated = signal +
  meta :: meta_info

text \<open>
  The first two statements: the team, resolved from the player name when it is blank, and
  the player name, or the error thrown.
\<close>

definition resolve_team :: "api \<Rightarrow> options \<Rightarrow> error + string \<times> string option" where
  "resolve_team client opts =
     (let resolution =
            (if blank (opt_team opts) \<and> truthy_str (opt_playerName opts)
             then (case resolvePlayerByName client (opt_year opts) (opt_playerName opts) of
                     Inl e \<Rightarrow> Inl (ApiError e)
                   | Inr None \<Rightarrow> Inl (ResolutionError (or_str (opt_playerName opts) []))
                   | Inr (Some r) \<Rightarrow> Inr (Some (res_team r), Some (res_name r)))
             else Inr (opt_team opts, opt_playerName opts))
      in (case resolution of
            Inl e \<Rightarrow> Inl e
          | Inr (team, playerName) \<Rightarrow>
              (case team of
                 None \<Rightarrow> Inl InputError
               | Some t \<Rightarrow> if blank (Some t) then Inl InputError else Inr (t, playerName))))"

text \<open>\<open>.catch(() => [])\<close>\<close>

definition or_empty :: "string + 'a payload \<Rightarrow> 'a payload" where
  "or_empty response = (case response of Inl e \<Rightarrow> Items [] | Inr value \<Rightarrow> value)"

definition aggregatePlayerInput :: "api \<Rightarrow> options \<Rightarrow> error + aggregated" where
  "aggregatePlayerInput client opts =
     (case resolve_team client opts of
        Inl e \<Rightarrow> Inl e
      | Inr (team, playerName) \<Rightarrow>
          let year = opt_year opts;
              usageList = or_empty (getPlayerUsage client year team);
              roster = or_empty (getRoster client team year);
              recruiting = or_empty (getRecruitingPlayers client year team);
              records = or_empty (getTeamRecords client year team);
              winRate0 = season_win_rate records year team;
              winRate = (if winRate0 = Fin 0.5 then getWinRate client year team else winRate0);
              picked =
                (case pick_player (\<lambda>p. pickStr [usg_player p, usg_name p]) playerName usageList of
                   Inl e \<Rightarrow> Inl e
                 | Inr playerUsage \<Rightarrow>
                     (case pick_player (\<lambda>p. pickStr [rcr_name p, rcr_player p]) playerName recruiting of
                        Inl e \<Rightarrow> Inl e
                      | Inr playerRecruiting \<Rightarrow>
                          (case pick_player (\<lambda>p. pickStr [rst_name p, rst_player p]) playerName roster of
                             Inl e \<Rightarrow> Inl e
                           | Inr playerRoster \<Rightarrow> Inr (playerUsage, playerRecruiting, playerRoster))))
          in (case picked of
                Inl e \<Rightarrow> Inl e
              | Inr (playerUsage, playerRecruiting, playerRoster) \<Rightarrow>
                  let (usageValue, snaps) = derive_usage playerUsage;
                      rank = derive_recruiting playerRecruiting
                  in (case derive_distance (distanceFromHighSchoolMiles opts) playerRoster team of
                        Inl e \<Rightarrow> Inl e
                      | Inr distance \<Rightarrow>
                          let fromUsage = (case playerUsage of
                                             None \<Rightarrow> None
                                           | Some u \<Rightarrow> pickStr [usg_player u, usg_name u]);
                              fromRoster = (case playerRoster of
                                              None \<Rightarrow> None
                                            | Some p \<Rightarrow> pickStr [rst_name p, rst_player p]);
                              displayName =
                                (case fromUsage of
                                   Some n \<Rightarrow> Some n
                                 | None \<Rightarrow> (case fromRoster of Some n \<Rightarrow> Some n | None \<Rightarrow> playerName))
                          in Inr \<lparr>playingTime = coalesce usageValue Undefined,
                                  distanceFromHighSchoolMiles = distance,
                                  recruitingRank = coalesce rank Undefined,
                                  teamWinRate = Num winRate,
                                  nilScore = coalesce (nilScore opts) Undefined,
                                  snapsPlayed = coalesce snaps Undefined,
                                  socialSentiment = coalesce (socialSentiment opts) Undefined,
                                  weights = Map.empty,
                                  meta = \<lparr>meta_playerName = displayName, meta_team = team,
                                          meta_year = year\<rparr>\<rparr>)))"

section \<open>The statements of the specification\<close>

text \<open>The keys of the object \<open>factors\<close>, in insertion order.\<close>

definition FACTOR_KEYS :: "string list" where
  "FACTOR_KEYS =
     [''playingTime'', ''distanceFromHome'', ''recruitingRank'', ''teamPerformance'',
      ''nilCollectives'', ''snapsPlayed'', ''socialSentiment'']"

text \<open>A risk in \<open>[0,1]\<close>; a signal value that is absent or a number other than \<open>NaN\<close>.\<close>

definition in_unit :: "jsnum \<Rightarrow> bool" where
  "in_unit x = (Fin 0 \<le> x \<and> x \<le> Fin 1)"

definition numeric_or_absent :: "jsval \<Rightarrow> bool" where
  "numeric_or_absent v = (nullish v \<or> Number v \<noteq> NaN)"



definition round_decimals :: "nat \<Rightarrow> jsnum \<Rightarrow> jsnum" where
  "round_decimals d x = Math_round (x * Fin (10 ^ d)) / Fin (10 ^ d)"


text \<open>
  The recruiting risk as the specification words it, from the raw rank and the playing
  time, and the same with both terms clamped to \<open>[0,1]\<close>.
\<close>

definition clamp01 :: "jsnum \<Rightarrow> jsnum" where
  "clamp01 x = Math_max (Fin 0) (Math_min (Fin 1) x)"

definition claimed_recruiting_risk :: "jsnum \<Rightarrow> jsval \<Rightarrow> jsnum" where
  "claimed_recruiting_risk rank pt =
     (let normalizedRank = (if rank \<le> Fin 1 then rank else rank / Fin 100);
          normalizedPlayingTime = (if nullish pt then Fin 0.5 else Number pt)
      in normalizedRank * (Fin 1 - normalizedPlayingTime))"

definition clamped_recruiting_risk :: "jsnum \<Rightarrow> jsval \<Rightarrow> jsnum" where
  "clamped_recruiting_risk rank pt =
     (let normalizedRank = (if rank \<le> Fin 1 then rank else rank / Fin 100);
          normalizedPlayingTime = (if nullish pt then Fin 0.5 else Number pt)
      in clamp01 normalizedRank * (Fin 1 - clamp01 normalizedPlayingTime))"



section \<open>Example inputs\<close>

definition no_options :: options where
  "no_options =
     \<lparr>playingTime = Undefined, distanceFromHighSchoolMiles = Undefined,
      recruitingRank = Undefined, teamWinRate = Undefined, nilScore = Undefined,
      snapsPlayed = Undefined, socialSentiment = Undefined, weights = Map.empty,
      opt_year = Num (Fin 2024), opt_team = None, opt_playerName = None\<rparr>"

definition bob_usage :: usage_rec where
  "bob_usage =
     \<lparr>usg_player = Some ''Bob'', usg_name = None, usg_usg_overall = Num (Fin 25),
      usg_usage_overall = Undefined, usg_usage = Undefined, usg_usageOverall = Undefined,
      usg_snap_counts = Scalar Undefined, usg_snaps = Undefined, usg_snap_count = Undefined,
      usg_totalSnaps = Undefined\<rparr>"

definition two_bobs :: "player_hit list" where
  "two_bobs =
     [\<lparr>hit_name = Some ''Bob'', hit_player = None, hit_team = None, hit_school = None\<rparr>,
      \<lparr>hit_name = Some ''Bob'', hit_player = None, hit_team = Some ''Texas'', hit_school = None\<rparr>]"

text \<open>
  A client whose search answers with \<open>two_bobs\<close>, whose usage request answers with
  \<open>bob_usage\<close>, and whose other requests answer with an empty array.
\<close>

definition example_client :: api where
  "example_client =
     \<lparr>searchPlayers = (\<lambda>year name. Inr (Items two_bobs)),
      getPlayerUsage = (\<lambda>year team. Inr (Items [bob_usage])),
      getRoster = (\<lambda>team year. Inr (Items [])),
      getRecruitingPlayers = (\<lambda>year team. Inr (Items [])),
      getTeamRecords = (\<lambda>year team. Inr (Items [])),
      getTeamGames = (\<lambda>year team seasonType. Inr (Items []))\<rparr>"

section \<open>Properties of the numbers\<close>

lemmas risk_defs = riskFromPlayingTime_def riskFromDistance_def riskFromRecruiting_def
  riskFromTeamPerformance_def riskFromNIL_def riskFromSnaps_def riskFromSocial_def normalize_def
  Math_max_def Math_min_def isNaN_def num_or_def minus_jsnum_def less_eq_jsnum_def


lemma in_unit_Fin: "in_unit (Fin a) = (0 \<le> a \<and> a \<le> 1)"
  by (auto simp: in_unit_def less_eq_jsnum_def)

lemma in_unit_FinE: "in_unit x \<Longrightarrow> \<exists>a. x = Fin a \<and> 0 \<le> a \<and> a \<le> 1"
  by (cases x) (auto simp: in_unit_def less_eq_jsnum_def)

lemma clamp_in_unit: "x \<noteq> NaN \<Longrightarrow> in_unit (Math_max (Fin 0) (Math_min (Fin 1) x))"
  by (cases x) (auto simp: in_unit_def Math_max_def Math_min_def less_eq_jsnum_def)

lemma one_minus_unit: "in_unit x \<Longrightarrow> in_unit (Fin 1 - x)"
  by (cases x) (auto simp: in_unit_def minus_jsnum_def less_eq_jsnum_def)

lemma mult_unit:
  assumes "in_unit x" and "in_unit y"
  shows "in_unit (x * y)"
proof -
  obtain a b where x: "x = Fin a" "0 \<le> a" "a \<le> 1" and y: "y = Fin b" "0 \<le> b" "b \<le> 1"
    using assms in_unit_FinE by blast
  have "0 \<le> a * b" and "a * b \<le> 1"
    using x y by (simp_all add: mult_le_one)
  then show ?thesis
    using x y by (simp add: in_unit_Fin)
qed

lemma normalize_unit:
  "x \<noteq> NaN \<Longrightarrow> 0 < m \<Longrightarrow> in_unit (normalize (Num (Math_max (Fin 0) x)) (Fin 0) (Fin m))"
  by (cases x)
     (auto simp: normalize_def Math_max_def Math_min_def isNaN_def num_or_def minus_jsnum_def in_unit_Fin)




section \<open>Properties of the scorer\<close>

subsection \<open>The risk functions\<close>

lemma playing_time_unit: "numeric_or_absent v \<Longrightarrow> in_unit (riskFromPlayingTime v)"
  unfolding riskFromPlayingTime_def Let_def numeric_or_absent_def
  by (auto intro!: one_minus_unit clamp_in_unit simp: in_unit_Fin)

lemma distance_unit: "numeric_or_absent v \<Longrightarrow> in_unit (riskFromDistance v)"
  unfolding riskFromDistance_def Let_def numeric_or_absent_def
  by (auto intro!: normalize_unit simp: in_unit_Fin)

lemma snaps_unit: "numeric_or_absent v \<Longrightarrow> in_unit (riskFromSnaps v (Fin 800))"
  unfolding riskFromSnaps_def Let_def numeric_or_absent_def
  by (auto intro!: normalize_unit one_minus_unit simp: in_unit_Fin)

lemma recruiting_unit:
  "numeric_or_absent r \<Longrightarrow> numeric_or_absent p \<Longrightarrow> in_unit (riskFromRecruiting r p)"
  unfolding riskFromRecruiting_def Let_def numeric_or_absent_def
  by (auto intro!: mult_unit one_minus_unit clamp_in_unit simp: in_unit_Fin)

lemma team_unit: "numeric_or_absent v \<Longrightarrow> in_unit (riskFromTeamPerformance v)"
  unfolding riskFromTeamPerformance_def Let_def numeric_or_absent_def
  by (auto intro!: one_minus_unit clamp_in_unit simp: in_unit_Fin)

lemma nil_unit: "numeric_or_absent v \<Longrightarrow> in_unit (riskFromNIL v)"
  unfolding riskFromNIL_def Let_def numeric_or_absent_def
  by (auto intro!: one_minus_unit clamp_in_unit simp: in_unit_Fin)

lemma social_unit: "numeric_or_absent v \<Longrightarrow> in_unit (riskFromSocial v)"
  unfolding riskFromSocial_def Let_def numeric_or_absent_def
  by (auto intro!: clamp_in_unit simp: in_unit_Fin)



text \<open>
  The same for the object \<open>factors\<close> of a record whose seven signals are numbers or
  absent.
\<close>

lemma rank_normalised_numeric:
  "x \<noteq> NaN \<Longrightarrow> (if x \<le> Fin 1 then x else x / Fin 100) \<noteq> NaN"
  by (cases x) (auto simp: less_eq_jsnum_def inf_of_sign_def)

lemma factors_in_unit:
  assumes "numeric_or_absent (playingTime input)"
    and "numeric_or_absent (distanceFromHighSchoolMiles input)"
    and "numeric_or_absent (recruitingRank input)"
    and "numeric_or_absent (teamWinRate input)"
    and "numeric_or_absent (nilScore input)"
    and "numeric_or_absent (snapsPlayed input)"
    and "numeric_or_absent (socialSentiment input)"
  shows "list_all (\<lambda>(key, r). in_unit r) (compute_factors input)"
proof -
  let ?pt = "if \<not> nullish (playingTime input) then Num (Number (playingTime input)) else Null"
  let ?rn = "if \<not> nullish (recruitingRank input)
             then Num (if Number (recruitingRank input) \<le> Fin 1
                       then Number (recruitingRank input)
                       else Number (recruitingRank input) / Fin 100)
             else Null"
  have pt: "numeric_or_absent ?pt"
    using assms(1) by (auto simp: numeric_or_absent_def)
  have rn: "numeric_or_absent ?rn"
    using assms(3) rank_normalised_numeric [of "Number (recruitingRank input)"]
    by (auto simp: numeric_or_absent_def)
  show ?thesis
    using assms pt rn
    by (simp add: compute_factors_def Let_def playing_time_unit distance_unit recruiting_unit
          team_unit nil_unit snaps_unit social_unit)
qed

subsection \<open>The neutral baseline\<close>

lemma empty_input_factors: "compute_factors empty_input = map (\<lambda>k. (k, Fin 0.5)) FACTOR_KEYS"
  by (simp add: compute_factors_def empty_input_def risk_defs FACTOR_KEYS_def)

lemma empty_input_weights: "weights empty_input = Map.empty"
  by (simp add: empty_input_def)

text \<open>
  C2: for the record with every field absent and no weights argument, the probability is
  exactly 50, every factor risk is 0.5 (in \<open>factors\<close> and in the breakdown), and every
  weight of the breakdown is the built-in default of its factor.
\<close>

theorem empty_input_is_neutral:
  "probability (computeTransferProbability empty_input Map.empty) = Fin 50
   \<and> factors (computeTransferProbability empty_input Map.empty) = map (\<lambda>k. (k, Fin 0.5)) FACTOR_KEYS
   \<and> map (\<lambda>(k, e). (k, risk e)) (breakdown (computeTransferProbability empty_input Map.empty))
       = map (\<lambda>k. (k, Fin 0.5)) FACTOR_KEYS
   \<and> map (\<lambda>(k, e). (k, Some (Num (weight e)))) (breakdown (computeTransferProbability empty_input Map.empty))
       = map (\<lambda>k. (k, DEFAULT_WEIGHTS k)) FACTOR_KEYS"
proof -
  have "probability (computeTransferProbability empty_input Map.empty) = Fin 50"
    by (simp add: computeTransferProbability_def empty_input_factors empty_input_weights
          FACTOR_KEYS_def resolve_weights_def Let_def DEFAULT_WEIGHTS_def get_prop_def)
  moreover have "factors (computeTransferProbability empty_input Map.empty)
      = map (\<lambda>k. (k, Fin 0.5)) FACTOR_KEYS"
    by (simp add: computeTransferProbability_def empty_input_factors Let_def split_beta)
  moreover have "map (\<lambda>(k, e). (k, risk e)) (breakdown (computeTransferProbability empty_input Map.empty))
      = map (\<lambda>k. (k, Fin 0.5)) FACTOR_KEYS"
    by (simp add: computeTransferProbability_def empty_input_factors FACTOR_KEYS_def Let_def
          make_breakdown_def split_beta)
  moreover have "map (\<lambda>(k, e). (k, Some (Num (weight e))))
        (breakdown (computeTransferProbability empty_input Map.empty))
      = map (\<lambda>k. (k, DEFAULT_WEIGHTS k)) FACTOR_KEYS"
    by (simp add: computeTransferProbability_def empty_input_factors empty_input_weights
          FACTOR_KEYS_def resolve_weights_def Let_def DEFAULT_WEIGHTS_def get_prop_def
          make_breakdown_def num_coalesce_def split_beta)
  ultimately show ?thesis by simp
qed

subsection \<open>The effective weights\<close>

lemma compute_factors_keys: "map fst (compute_factors input) = FACTOR_KEYS"
  by (simp add: compute_factors_def FACTOR_KEYS_def Let_def)

lemma get_prop_resolve:
  "get_prop (resolve_weights input wts) key =
     (case wts key of
        Some v \<Rightarrow> v
      | None \<Rightarrow> (case weights input key of
                   Some v \<Rightarrow> v
                 | None \<Rightarrow> get_prop DEFAULT_WEIGHTS key))"
  by (simp add: resolve_weights_def get_prop_def map_add_def split: option.splits)

text \<open>
  C4: the effective weight of a key is the value of the explicit weights argument when
  that has the key, else the value of the record's \<open>weights\<close> when that has the key,
  else the built-in default; and these are the weights the breakdown reports for the
  seven factors (\<open>0\<close> for a weight that is \<open>null\<close> or \<open>undefined\<close>).
\<close>

theorem weight_resolution_order:
  "get_prop (resolve_weights input wts) key =
     (case wts key of
        Some v \<Rightarrow> v
      | None \<Rightarrow> (case weights input key of
                   Some v \<Rightarrow> v
                 | None \<Rightarrow> get_prop DEFAULT_WEIGHTS key))
   \<and> map (\<lambda>(k, e). (k, weight e)) (breakdown (computeTransferProbability input wts))
       = map (\<lambda>k. (k, num_coalesce (get_prop (resolve_weights input wts) k) (Fin 0))) FACTOR_KEYS"
proof -
  have "map (\<lambda>(k, e). (k, weight e)) (breakdown (computeTransferProbability input wts))
       = map (\<lambda>k. (k, num_coalesce (get_prop (resolve_weights input wts) k) (Fin 0)))
           (map fst (compute_factors input))"
    by (simp add: computeTransferProbability_def Let_def split_beta make_breakdown_def comp_def)
  then have "map (\<lambda>(k, e). (k, weight e)) (breakdown (computeTransferProbability input wts))
       = map (\<lambda>k. (k, num_coalesce (get_prop (resolve_weights input wts) k) (Fin 0))) FACTOR_KEYS"
    by (simp only: compute_factors_keys)
  then show ?thesis
    by (simp add: get_prop_resolve)
qed

subsection \<open>The combination\<close>



subsection \<open>Keys that are not factors\<close>

lemma accumulate_cong:
  "\<forall>k \<in> set (map fst fs). get_prop w k = get_prop w' k
     \<Longrightarrow> accumulate w fs acc = accumulate w' fs acc"
proof (induction fs arbitrary: acc)
  case Nil
  show ?case by simp
next
  case (Cons f fs)
  obtain key r where f: "f = (key, r)" by (cases f)
  obtain tw ws where acc: "acc = (tw, ws)" by (cases acc)
  from Cons.prems have k: "get_prop w key = get_prop w' key"
    and rest: "\<forall>k \<in> set (map fst fs). get_prop w k = get_prop w' k"
    by (simp_all add: f)
  show ?case
    by (simp add: f acc k Cons.IH[OF rest] Let_def)
qed

lemma make_breakdown_cong:
  "\<forall>k \<in> set (map fst fs). get_prop w k = get_prop w' k
     \<Longrightarrow> make_breakdown w fs = make_breakdown w' fs"
  by (auto simp: make_breakdown_def)

lemma make_breakdown_keys: "map fst (make_breakdown w fs) = map fst fs"
  by (simp add: make_breakdown_def split_beta comp_def)

lemma compute_factors_weights: "compute_factors (input\<lparr>weights := iw\<rparr>) = compute_factors input"
  by (simp add: compute_factors_def)

text \<open>
  C10: two choices of the record's \<open>weights\<close> and two weights arguments that agree on
  the seven factor keys (they differ only by entries under other keys) give the same
  result, probability, breakdown and factors; and the keys of the breakdown are the seven
  factor keys, no other.
\<close>

theorem nonfactor_weight_keys_have_no_effect:
  assumes "\<forall>k \<in> set FACTOR_KEYS. iw k = iw' k" and "\<forall>k \<in> set FACTOR_KEYS. wts k = wts' k"
  shows "computeTransferProbability (input\<lparr>weights := iw\<rparr>) wts
           = computeTransferProbability (input\<lparr>weights := iw'\<rparr>) wts'
         \<and> map fst (breakdown (computeTransferProbability (input\<lparr>weights := iw\<rparr>) wts)) = FACTOR_KEYS"
proof -
  let ?w = "resolve_weights (input\<lparr>weights := iw\<rparr>) wts"
  let ?w' = "resolve_weights (input\<lparr>weights := iw'\<rparr>) wts'"
  let ?fs = "compute_factors input"
  have agree: "\<forall>k \<in> set (map fst ?fs). get_prop ?w k = get_prop ?w' k"
  proof
    fix k assume "k \<in> set (map fst ?fs)"
    then have k: "k \<in> set FACTOR_KEYS" by (simp add: compute_factors_keys)
    have "iw k = iw' k" and "wts k = wts' k" using assms k by blast+
    then show "get_prop ?w k = get_prop ?w' k"
      by (simp add: get_prop_resolve cong: option.case_cong)
  qed
  have "accumulate ?w ?fs (Fin 0, Fin 0) = accumulate ?w' ?fs (Fin 0, Fin 0)"
    using agree by (rule accumulate_cong)
  moreover have "make_breakdown ?w ?fs = make_breakdown ?w' ?fs"
    using agree by (rule make_breakdown_cong)
  ultimately have "computeTransferProbability (input\<lparr>weights := iw\<rparr>) wts
           = computeTransferProbability (input\<lparr>weights := iw'\<rparr>) wts'"
    by (simp add: computeTransferProbability_def compute_factors_weights Let_def)
  moreover have "map fst (breakdown (computeTransferProbability (input\<lparr>weights := iw\<rparr>) wts))
      = FACTOR_KEYS"
    by (simp add: computeTransferProbability_def Let_def split_beta make_breakdown_keys
          compute_factors_keys)
  ultimately show ?thesis by simp
qed

theorem nonfactor_weight_keys_have_no_effect_witness:
  "computeTransferProbability (empty_input\<lparr>weights := [''bonus'' \<mapsto> Num (Fin 5)]\<rparr>)
          [''playingTime'' \<mapsto> Num (Fin 1), ''luck'' \<mapsto> Num (Fin 9)]
        = computeTransferProbability (empty_input\<lparr>weights := Map.empty\<rparr>) [''playingTime'' \<mapsto> Num (Fin 1)]
   \<and> map fst (breakdown (computeTransferProbability (empty_input\<lparr>weights := [''bonus'' \<mapsto> Num (Fin 5)]\<rparr>)
          [''playingTime'' \<mapsto> Num (Fin 1), ''luck'' \<mapsto> Num (Fin 9)])) = FACTOR_KEYS"
proof -
  have a: "\<forall>k \<in> set FACTOR_KEYS. [''bonus'' \<mapsto> Num (Fin 5)] k = Map.empty k"
    by (simp add: FACTOR_KEYS_def)
  have b: "\<forall>k \<in> set FACTOR_KEYS.
      [''playingTime'' \<mapsto> Num (Fin 1), ''luck'' \<mapsto> Num (Fin 9)] k = [''playingTime'' \<mapsto> Num (Fin 1)] k"
    by (simp add: FACTOR_KEYS_def)
  show ?thesis
    by (rule nonfactor_weight_keys_have_no_effect [OF a b, of empty_input])
qed

subsection \<open>The recruiting risk\<close>

lemma recruiting_factor:
  "map_of (factors (computeTransferProbability input wts)) ''recruitingRank'' =
     Some (riskFromRecruiting
       (if \<not> nullish (recruitingRank input)
        then Num (if Number (recruitingRank input) \<le> Fin 1
                  then Number (recruitingRank input)
                  else Number (recruitingRank input) / Fin 100)
        else Null)
       (if \<not> nullish (playingTime input) then Num (Number (playingTime input)) else Null))"
  by (simp add: computeTransferProbability_def compute_factors_def Let_def split_beta)

lemma clamp_half: "Math_max (Fin 0) (Math_min (Fin 1) (Fin (1 / 2))) = Fin (1 / 2)"
  by (simp add: Math_max_def Math_min_def)

text \<open>
  C6, as claimed, fails: for the rank 200 and no playing time the rank normalises to 2,
  the claimed product is \<open>2 * (1 - 0.5) = 1\<close>, and the scorer, which clamps the rank to
  1, returns 0.5.
\<close>

theorem recruiting_risk_unclamped_counterexample:
  "map_of (factors (computeTransferProbability (empty_input\<lparr>recruitingRank := Num (Fin 200)\<rparr>) Map.empty))
      ''recruitingRank'' = Some (Fin 0.5)
   \<and> claimed_recruiting_risk (Fin 200) (playingTime (empty_input\<lparr>recruitingRank := Num (Fin 200)\<rparr>))
      = Fin 1"
  by (simp add: computeTransferProbability_def compute_factors_def Let_def split_beta empty_input_def
        claimed_recruiting_risk_def risk_defs)

text \<open>
  C6, amended: for a present recruiting rank the recruiting risk is the normalised rank
  clamped to \<open>[0,1]\<close>, times one minus the playing time clamped to \<open>[0,1]\<close>, where the
  normalised rank is the raw rank if that is at most 1 and the raw rank over 100
  otherwise, and the playing time is 0.5 when absent; the ranks 100 and 1 give the same
  recruiting risk for the same playing time.
\<close>

theorem recruiting_risk_clamped:
  assumes "\<not> nullish (recruitingRank input)"
  shows "map_of (factors (computeTransferProbability input wts)) ''recruitingRank''
           = Some (clamped_recruiting_risk (Number (recruitingRank input)) (playingTime input))
         \<and> map_of (factors (computeTransferProbability (input\<lparr>recruitingRank := Num (Fin 100)\<rparr>) wts))
               ''recruitingRank''
           = map_of (factors (computeTransferProbability (input\<lparr>recruitingRank := Num (Fin 1)\<rparr>) wts))
               ''recruitingRank''"
proof -
  have "map_of (factors (computeTransferProbability input wts)) ''recruitingRank''
           = Some (clamped_recruiting_risk (Number (recruitingRank input)) (playingTime input))"
    using assms
    by (simp add: recruiting_factor riskFromRecruiting_def clamped_recruiting_risk_def Let_def
          clamp01_def clamp_half)
  moreover have "map_of (factors (computeTransferProbability (input\<lparr>recruitingRank := Num (Fin 100)\<rparr>) wts))
               ''recruitingRank''
           = map_of (factors (computeTransferProbability (input\<lparr>recruitingRank := Num (Fin 1)\<rparr>) wts))
               ''recruitingRank''"
    by (simp add: recruiting_factor less_eq_jsnum_def)
  ultimately show ?thesis by simp
qed

theorem recruiting_risk_clamped_witness:
  "\<not> nullish (recruitingRank (empty_input\<lparr>recruitingRank := Num (Fin 200)\<rparr>))
   \<and> map_of (factors (computeTransferProbability (empty_input\<lparr>recruitingRank := Num (Fin 200)\<rparr>) Map.empty))
         ''recruitingRank''
       = Some (Fin 0.5)"
  using recruiting_risk_clamped [of "empty_input\<lparr>recruitingRank := Num (Fin 200)\<rparr>" Map.empty]
  by (simp add: clamped_recruiting_risk_def clamp01_def Math_max_def Math_min_def less_eq_jsnum_def
        minus_jsnum_def empty_input_def)

text \<open>
  On the documented ranges, a rank in \<open>[0,100]\<close> and a playing time in \<open>[0,1]\<close> or
  absent, the clamps change nothing and the two formulas agree.
\<close>

lemma clamp01_id: "in_unit x \<Longrightarrow> clamp01 x = x"
  by (cases x) (auto simp: in_unit_def clamp01_def Math_max_def Math_min_def less_eq_jsnum_def)

lemma claimed_recruiting_risk_on_domain:
  assumes "Fin 0 \<le> rank" and "rank \<le> Fin 100" and "nullish pt \<or> in_unit (Number pt)"
  shows "clamped_recruiting_risk rank pt = claimed_recruiting_risk rank pt"
proof -
  obtain a where a: "rank = Fin a" "0 \<le> a" "a \<le> 100"
    using assms(1,2) by (cases rank) (auto simp: less_eq_jsnum_def)
  have "in_unit (if rank \<le> Fin 1 then rank else rank / Fin 100)"
    using a by (auto simp: in_unit_Fin less_eq_jsnum_def)
  moreover have "in_unit (if nullish pt then Fin 0.5 else Number pt)"
    using assms(3) by (auto simp: in_unit_Fin)
  ultimately show ?thesis
    by (simp add: clamped_recruiting_risk_def claimed_recruiting_risk_def Let_def clamp01_id)
qed

subsection \<open>Signals that are not numbers\<close>

text \<open>
  Of the seven risk functions, the two that go through \<open>normalize\<close> map \<open>NaN\<close> to
  the neutral 0.5; the other five return \<open>NaN\<close>.
\<close>

lemma risk_of_NaN:
  "riskFromPlayingTime (Num NaN) = NaN" "riskFromRecruiting (Num NaN) p = NaN"
  "riskFromTeamPerformance (Num NaN) = NaN" "riskFromNIL (Num NaN) = NaN"
  "riskFromSocial (Num NaN) = NaN"
  "riskFromDistance (Num NaN) = Fin 0.5" "riskFromSnaps (Num NaN) (Fin 800) = Fin 0.5"
  by (simp_all add: risk_defs)

text \<open>
  C1: a playing time that is not a number (the string \<open>"abc"\<close>, which \<open>Number\<close> turns
  into \<open>NaN\<close>) is not treated as absent. Its risk is \<open>NaN\<close>, not the neutral 0.5, and so
  is the probability, while the distance risk of the same value is 0.5.
\<close>

theorem non_numeric_playing_time_yields_NaN:
  "factors (computeTransferProbability (empty_input\<lparr>playingTime := Num NaN\<rparr>) Map.empty)
     = [(''playingTime'', NaN), (''distanceFromHome'', Fin 0.5), (''recruitingRank'', Fin 0.5),
        (''teamPerformance'', Fin 0.5), (''nilCollectives'', Fin 0.5), (''snapsPlayed'', Fin 0.5),
        (''socialSentiment'', Fin 0.5)]
   \<and> probability (computeTransferProbability (empty_input\<lparr>playingTime := Num NaN\<rparr>) Map.empty) = NaN
   \<and> riskFromDistance (Num NaN) = Fin 0.5"
  by (simp add: computeTransferProbability_def compute_factors_def Let_def split_beta empty_input_def
        risk_defs resolve_weights_def DEFAULT_WEIGHTS_def get_prop_def)

subsection \<open>The breakdown\<close>

text \<open>
  The breakdown has one entry for each of the seven factors, in their order, with the
  risk and the product of weight and risk rounded to two decimals.
\<close>

lemma breakdown_entries:
  "breakdown (computeTransferProbability input wts)
     = map (\<lambda>(key, r).
              (key, \<lparr>risk = round_decimals 2 r,
                     weight = num_coalesce (get_prop (resolve_weights input wts) key) (Fin 0),
                     contribution =
                       round_decimals 2
                         (num_coalesce (get_prop (resolve_weights input wts) key) (Fin 0) * r)\<rparr>))
           (compute_factors input)"
  by (simp add: computeTransferProbability_def Let_def split_beta make_breakdown_def
        round_decimals_def)

lemma breakdown_keys: "map fst (breakdown (computeTransferProbability input wts)) = FACTOR_KEYS"
  by (simp add: computeTransferProbability_def Let_def split_beta make_breakdown_keys
        compute_factors_keys)

lemma zero_weight_contribution:
  "r \<noteq> NaN \<Longrightarrow> r \<noteq> PosInf \<Longrightarrow> r \<noteq> NegInf \<Longrightarrow> round_decimals 2 (Fin 0 * r) = Fin 0"
  by (cases r) (simp_all add: round_decimals_def)

text \<open>
  C7: the entry of a factor of weight zero whose signal is not a number (here a NIL score
  that \<open>Number\<close> turns into \<open>NaN\<close>) reports the risk \<open>NaN\<close> and the contribution
  \<open>NaN\<close>, not a risk rounded to two decimals and the contribution 0.
\<close>

theorem zero_weight_contribution_NaN:
  "map_of (breakdown (computeTransferProbability (empty_input\<lparr>nilScore := Num NaN\<rparr>)
             [''nilCollectives'' \<mapsto> Num (Fin 0)])) ''nilCollectives''
     = Some \<lparr>risk = NaN, weight = Fin 0, contribution = NaN\<rparr>"
  by (simp add: computeTransferProbability_def compute_factors_def Let_def split_beta empty_input_def
        risk_defs resolve_weights_def DEFAULT_WEIGHTS_def get_prop_def make_breakdown_def
        num_coalesce_def)

section \<open>Properties of the aggregator\<close>

lemmas agg_defs = aggregatePlayerInput_def resolve_team_def resolvePlayerByName_def
  example_client_def no_options_def bob_usage_def two_bobs_def or_empty_def season_win_rate_def
  getWinRate_def pick_player_def derive_usage_def derive_recruiting_def
  derive_distance_def coalesce_def js_trim_def is_space_def toLowerCase_def str_or_def
  Let_def isNaN_def

subsection \<open>The two errors\<close>















text \<open>
  Once the team is resolved, the aggregation returns a record when the team is not a key
  of \<open>Object.prototype\<close> and the three sources searched for the player carry arrays
  (or nothing truthy): no request that is rejected stops it.
\<close>

lemma pick_player_returns:
  "source \<noteq> NotArray True \<Longrightarrow> pick_player name_of playerName source \<noteq> Inl e"
  by (auto simp: pick_player_def Let_def split: option.splits payload.splits list.splits)

lemma aggregate_returns:
  assumes "resolve_team client opts = Inr (team, playerName)"
    and "team \<notin> set OBJECT_PROTOTYPE_KEYS"
    and "getPlayerUsage client (opt_year opts) team \<noteq> Inr (NotArray True)"
    and "getRecruitingPlayers client (opt_year opts) team \<noteq> Inr (NotArray True)"
    and "getRoster client team (opt_year opts) \<noteq> Inr (NotArray True)"
  shows "\<exists>a. aggregatePlayerInput client opts = Inr a"
proof -
  have distance: "derive_distance miles pr team \<noteq> Inl e" for miles pr e
    using assms(2)
    by (auto simp: derive_distance_def inferTeamState_def Let_def
             split: option.splits state_lookup.splits)
  have "or_empty (getPlayerUsage client (opt_year opts) team) \<noteq> NotArray True"
    and "or_empty (getRecruitingPlayers client (opt_year opts) team) \<noteq> NotArray True"
    and "or_empty (getRoster client team (opt_year opts)) \<noteq> NotArray True"
    using assms(3-5) by (auto simp: or_empty_def split: sum.splits)
  then have picks:
    "pick_player f playerName (or_empty (getPlayerUsage client (opt_year opts) team)) \<noteq> Inl e"
    "pick_player g playerName (or_empty (getRecruitingPlayers client (opt_year opts) team)) \<noteq> Inl e"
    "pick_player h playerName (or_empty (getRoster client team (opt_year opts))) \<noteq> Inl e"
    for f g h e
    by (simp_all add: pick_player_returns)
  show ?thesis
    using assms(1) distance picks
    by (auto simp: aggregatePlayerInput_def Let_def split_beta split: sum.splits)
qed

subsection \<open>The manual overrides\<close>

lemma derive_distance_override:
  "\<not> nullish miles \<Longrightarrow> derive_distance miles pr team = Inr miles"
  by (auto simp: derive_distance_def split: option.splits)

lemma resolve_team_signal:
  "resolve_team client (opts\<lparr>playingTime := pt, teamWinRate := wr, recruitingRank := rr,
       snapsPlayed := sp\<rparr>) = resolve_team client opts"
  by (simp add: resolve_team_def cong: sum.case_cong option.case_cong)

text \<open>
  C9, as claimed, fails: with the option \<open>playingTime = 0.9\<close> and a usage record of the
  player with the overall usage 25 (percent), the returned record has the playing time
  0.25, derived from the usage record, not the override.
\<close>

theorem playing_time_override_ignored:
  "playingTime (no_options\<lparr>opt_team := Some ''Texas'', opt_playerName := Some ''Bob'',
                            playingTime := Num (Fin 0.9)\<rparr>) = Num (Fin 0.9)
   \<and> aggregatePlayerInput example_client
        (no_options\<lparr>opt_team := Some ''Texas'', opt_playerName := Some ''Bob'',
                     playingTime := Num (Fin 0.9)\<rparr>)
       = Inr \<lparr>playingTime = Num (Fin 0.25), distanceFromHighSchoolMiles = Undefined,
              recruitingRank = Undefined, teamWinRate = Num (Fin 0.5), nilScore = Undefined,
              snapsPlayed = Undefined, socialSentiment = Undefined, weights = Map.empty,
              meta = \<lparr>meta_playerName = Some ''Bob'', meta_team = ''Texas'',
                      meta_year = Num (Fin 2024)\<rparr>\<rparr>"
  by (simp add: agg_defs)

text \<open>
  C9, amended: when the aggregation returns a record, each of the overrides
  \<open>nilScore\<close>, \<open>socialSentiment\<close> and \<open>distanceFromHighSchoolMiles\<close> that the options
  pass (a value that is not \<open>null\<close> or \<open>undefined\<close>) is the value of that field of the
  record; the options \<open>playingTime\<close>, \<open>teamWinRate\<close>, \<open>recruitingRank\<close> and
  \<open>snapsPlayed\<close> are not read: whatever they are, the record is the same.
\<close>

theorem aggregator_overrides:
  assumes "aggregatePlayerInput client opts = Inr a"
  shows "(\<not> nullish (nilScore opts) \<longrightarrow> nilScore a = nilScore opts)
         \<and> (\<not> nullish (socialSentiment opts) \<longrightarrow> socialSentiment a = socialSentiment opts)
         \<and> (\<not> nullish (distanceFromHighSchoolMiles opts)
              \<longrightarrow> distanceFromHighSchoolMiles a = distanceFromHighSchoolMiles opts)
         \<and> aggregatePlayerInput client
              (opts\<lparr>playingTime := pt, teamWinRate := wr, recruitingRank := rr, snapsPlayed := sp\<rparr>)
             = Inr a"
proof -
  have "nilScore a = coalesce (nilScore opts) Undefined"
    and "socialSentiment a = coalesce (socialSentiment opts) Undefined"
    using assms
    by (auto simp: aggregatePlayerInput_def Let_def split_beta split: sum.splits)
  then have manual: "\<not> nullish (nilScore opts) \<longrightarrow> nilScore a = nilScore opts"
    "\<not> nullish (socialSentiment opts) \<longrightarrow> socialSentiment a = socialSentiment opts"
    by (simp_all add: coalesce_def)
  have distance: "\<not> nullish (distanceFromHighSchoolMiles opts)
      \<longrightarrow> distanceFromHighSchoolMiles a = distanceFromHighSchoolMiles opts"
    using assms
    by (auto simp: aggregatePlayerInput_def Let_def split_beta derive_distance_override
             split: sum.splits)
  have "aggregatePlayerInput client
          (opts\<lparr>playingTime := pt, teamWinRate := wr, recruitingRank := rr, snapsPlayed := sp\<rparr>)
        = aggregatePlayerInput client opts"
    by (simp add: aggregatePlayerInput_def resolve_team_signal Let_def split_beta
          cong: sum.case_cong)
  with assms manual distance show ?thesis by simp
qed

theorem aggregator_overrides_witness:
  "aggregatePlayerInput example_client
      (no_options\<lparr>opt_team := Some ''Texas'', nilScore := Num (Fin 0.3),
                   socialSentiment := Num (Fin 0.7), distanceFromHighSchoolMiles := Num (Fin 400)\<rparr>)
     = Inr \<lparr>playingTime = Num (Fin 0.25), distanceFromHighSchoolMiles = Num (Fin 400),
            recruitingRank = Undefined, teamWinRate = Num (Fin 0.5), nilScore = Num (Fin 0.3),
            snapsPlayed = Undefined, socialSentiment = Num (Fin 0.7), weights = Map.empty,
            meta = \<lparr>meta_playerName = Some ''Bob'', meta_team = ''Texas'',
                    meta_year = Num (Fin 2024)\<rparr>\<rparr>
   \<and> aggregatePlayerInput example_client
      (no_options\<lparr>opt_team := Some ''Texas'', nilScore := Num (Fin 0.3),
                   socialSentiment := Num (Fin 0.7), distanceFromHighSchoolMiles := Num (Fin 400),
                   playingTime := Num (Fin 0.9), teamWinRate := Num (Fin 1),
                   recruitingRank := Num (Fin 1), snapsPlayed := Num (Fin 800)\<rparr>)
     = Inr \<lparr>playingTime = Num (Fin 0.25), distanceFromHighSchoolMiles = Num (Fin 400),
            recruitingRank = Undefined, teamWinRate = Num (Fin 0.5), nilScore = Num (Fin 0.3),
            snapsPlayed = Undefined, socialSentiment = Num (Fin 0.7), weights = Map.empty,
            meta = \<lparr>meta_playerName = Some ''Bob'', meta_team = ''Texas'',
                    meta_year = Num (Fin 2024)\<rparr>\<rparr>"
proof -
  let ?opts = "no_options\<lparr>opt_team := Some ''Texas'', nilScore := Num (Fin 0.3),
                   socialSentiment := Num (Fin 0.7), distanceFromHighSchoolMiles := Num (Fin 400)\<rparr>"
  have run: "aggregatePlayerInput example_client ?opts
     = Inr \<lparr>playingTime = Num (Fin 0.25), distanceFromHighSchoolMiles = Num (Fin 400),
            recruitingRank = Undefined, teamWinRate = Num (Fin 0.5), nilScore = Num (Fin 0.3),
            snapsPlayed = Undefined, socialSentiment = Num (Fin 0.7), weights = Map.empty,
            meta = \<lparr>meta_playerName = Some ''Bob'', meta_team = ''Texas'',
                    meta_year = Num (Fin 2024)\<rparr>\<rparr>"
    by (simp add: agg_defs)
  note same = aggregator_overrides [OF run, where pt = "Num (Fin 0.9)" and wr = "Num (Fin 1)"
      and rr = "Num (Fin 1)" and sp = "Num (Fin 800)"]
  show ?thesis
    using run same by (simp add: no_options_def)
qed

end
